theory Spec2Isabelle
  imports Main
begin

section \<open>Attribute-value association (saleor/attribute/utils.py)\<close>

text \<open>
  The module assigns attribute values to catalogue entities through Django's ORM.
  The relational store is made explicit: every function takes the store and returns
  the store it leaves behind together with either the raised exception (\<open>Inl\<close>) or
  the returned value (\<open>Inr\<close>), so that a failure after a write keeps the write.
\<close>

subsection \<open>Exceptions\<close>

text \<open>
  The exceptions the module can raise. Both \<^verbatim>\<open>raise AssertionError(...)\<close> statements
  of the source carry a message, which is kept; \<open>DoesNotExist\<close> and
  \<open>MultipleObjectsReturned\<close> come from \<^verbatim>\<open>QuerySet.get\<close>, \<open>AttributeError\<close> from
  \<^verbatim>\<open>getattr\<close>, \<open>KeyError\<close> from a dictionary subscript and \<open>ValueError\<close> from
  \<^verbatim>\<open>list.index\<close>.
\<close>

datatype error =
    AssertionError string
  | DoesNotExist
  | MultipleObjectsReturned
  | AttributeError
  | KeyError
  | ValueError

subsection \<open>Entities and rows\<close>

text \<open>
  The five association tables of each family (link, assignment, assigned value) are
  indexed by the kind of entity they belong to.
\<close>

datatype entity_kind =
    ProductKind
  | ProductVariantKind
  | PageKind
  | CategoryKind
  | CollectionKind

text \<open>
  An instance as the module reads it: its primary key and, for a product, the key of its
  product type; for a variant, the key of its product's product type; for a page, the
  key of its page type. \<open>Other\<close> is an instance of any other class, with the class name.
\<close>

datatype entity =
    Product int int
  | ProductVariant int int
  | Page int int
  | Category int
  | Collection int
  | Other string int

fun instance_pk :: "entity \<Rightarrow> int" where
  "instance_pk (Product pk product_type) = pk"
| "instance_pk (ProductVariant pk product_type) = pk"
| "instance_pk (Page pk page_type) = pk"
| "instance_pk (Category pk) = pk"
| "instance_pk (Collection pk) = pk"
| "instance_pk (Other name pk) = pk"

text \<open>\<^verbatim>\<open>instance.__class__.__name__\<close>\<close>

fun class_name :: "entity \<Rightarrow> string" where
  "class_name (Product pk product_type) = ''Product''"
| "class_name (ProductVariant pk product_type) = ''ProductVariant''"
| "class_name (Page pk page_type) = ''Page''"
| "class_name (Category pk) = ''Category''"
| "class_name (Collection pk) = ''Collection''"
| "class_name (Other name pk) = name"

record attribute =
  attribute_pk :: int

record attribute_value =
  value_pk :: int
  value_attribute_id :: int

text \<open>
  Modelled from the spec: the schema (saleor/attribute/models.py) is not part of the
  sources at hand. A link row (AttributeDefinitionLink) binds an attribute to the owner
  of a link collection (a product type, a page type or the site settings); an
  assignment row joins an instance and a link; an assigned-value row joins an assignment
  and a value and carries the nullable integer \<open>sort_order\<close>.
\<close>

record link =
  link_pk :: int
  link_owner :: int
  link_attribute_id :: int

record assignment =
  assignment_pk :: int
  assignment_instance :: int
  assignment_link :: int

record assigned_value =
  av_pk :: int
  av_assignment :: int
  av_value :: int
  sort_order :: "int option"

text \<open>An assignment object knows its model class, hence its table.\<close>

type_synonym assignment_obj = "entity_kind \<times> assignment"

record store =
  attribute_values :: "attribute_value list"
  attribute_links :: "entity_kind \<Rightarrow> link list"
  assignments :: "entity_kind \<Rightarrow> assignment list"
  assigned_values :: "entity_kind \<Rightarrow> assigned_value list"

subsection \<open>The data-store operations the module calls\<close>

text \<open>
  Modelled from the spec: the store contract of section 6 (fetch a link collection
  filtered by attribute identifier, get-or-create keyed by a composite key, replace a
  to-many relation, batch-update a numeric field), with the behaviour of the Django
  calls the source makes. A query result keeps the order of the table.
\<close>

text \<open>A new row takes a key above every key of its table.\<close>

definition next_pk :: "int list \<Rightarrow> int" where
  "next_pk pks = fold max pks 0 + 1"

text \<open>
  \<^verbatim>\<open>owner.attributeproduct\<close> and its siblings: the links of one kind that belong to
  one owner.
\<close>

definition related_links :: "store \<Rightarrow> entity_kind \<Rightarrow> int \<Rightarrow> link list" where
  "related_links s k owner = filter (\<lambda>l. link_owner l = owner) (attribute_links s k)"

text \<open>\<^verbatim>\<open>QuerySet.get\<close>: exactly one row, or an exception.\<close>

definition queryset_get :: "'a list \<Rightarrow> error + 'a" where
  "queryset_get rows =
     (case rows of
        [] \<Rightarrow> Inl DoesNotExist
      | [r] \<Rightarrow> Inr r
      | r # r' # rs \<Rightarrow> Inl MultipleObjectsReturned)"

text \<open>\<^verbatim>\<open>Model.objects.get_or_create(<instance>=instance, assignment=attribute_rel)\<close>\<close>

definition get_or_create ::
  "store \<Rightarrow> entity_kind \<Rightarrow> int \<Rightarrow> int \<Rightarrow> (error + assignment_obj) \<times> store" where
  "get_or_create s k inst lnk =
     (case filter (\<lambda>r. assignment_instance r = inst \<and> assignment_link r = lnk)
             (assignments s k) of
        [] \<Rightarrow>
          (let r = \<lparr>assignment_pk = next_pk (map assignment_pk (assignments s k)),
                    assignment_instance = inst, assignment_link = lnk\<rparr>
           in (Inr (k, r), s\<lparr>assignments := (assignments s)(k := assignments s k @ [r])\<rparr>))
      | [r] \<Rightarrow> (Inr (k, r), s)
      | r # r' # rs \<Rightarrow> (Inl MultipleObjectsReturned, s))"

text \<open>
  The loop of \<^verbatim>\<open>ManyRelatedManager.set\<close>: a value already related is struck from
  \<open>old_ids\<close>, any other is collected in \<open>new_objs\<close>.
\<close>

fun set_loop ::
  "attribute_value list \<Rightarrow> int set \<Rightarrow> attribute_value list \<Rightarrow> int set \<times> attribute_value list"
where
  "set_loop [] old_ids new_objs = (old_ids, new_objs)"
| "set_loop (obj # objs) old_ids new_objs =
     (if value_pk obj \<in> old_ids
      then set_loop objs (old_ids - {value_pk obj}) new_objs
      else set_loop objs old_ids (new_objs @ [obj]))"

fun bulk_create :: "int \<Rightarrow> int \<Rightarrow> int list \<Rightarrow> assigned_value list" where
  "bulk_create n a [] = []"
| "bulk_create n a (v # vs) =
     \<lparr>av_pk = n, av_assignment = a, av_value = v, sort_order = None\<rparr>
       # bulk_create (n + 1) a vs"

text \<open>
  \<^verbatim>\<open>ManyRelatedManager.set\<close> on the table of assigned values, for the assignment
  with key \<open>apk\<close>: the rows of the assignment whose value is left in \<open>old_ids\<close> are
  deleted, and one row is inserted for each new value that has no row yet. The new rows
  are inserted in the order in which their values first occur.
\<close>

definition related_set ::
  "assigned_value list \<Rightarrow> int \<Rightarrow> attribute_value list \<Rightarrow> assigned_value list" where
  "related_set tbl apk objs =
     (let old_ids = set (map av_value (filter (\<lambda>r. av_assignment r = apk) tbl));
          (old_ids', new_objs) = set_loop objs old_ids [];
          tbl1 = filter (\<lambda>r. \<not> (av_assignment r = apk \<and> av_value r \<in> old_ids')) tbl;
          target_ids = remdups (map value_pk new_objs);
          existing = set (map av_value (filter (\<lambda>r. av_assignment r = apk) tbl1));
          missing = filter (\<lambda>v. v \<notin> existing) target_ids
      in tbl1 @ bulk_create (next_pk (map av_pk tbl1)) apk missing)"

text \<open>\<^verbatim>\<open>assignment.values.set(values)\<close>\<close>

definition values_set :: "store \<Rightarrow> assignment_obj \<Rightarrow> attribute_value list \<Rightarrow> store" where
  "values_set s a objs =
     s\<lparr>assigned_values :=
         (assigned_values s)
           (fst a := related_set (assigned_values s (fst a)) (assignment_pk (snd a)) objs)\<rparr>"

text \<open>
  \<^verbatim>\<open>Model.objects.bulk_update(objs, ["sort_order"])\<close>: each row whose key is the key of
  one of the objects takes that object's \<open>sort_order\<close>.
\<close>

definition bulk_update :: "assigned_value list \<Rightarrow> assigned_value list \<Rightarrow> assigned_value list" where
  "bulk_update tbl objs =
     map (\<lambda>r. case find (\<lambda>obj. av_pk obj = av_pk r) objs of
                None \<Rightarrow> r
              | Some obj \<Rightarrow> r\<lparr>sort_order := sort_order obj\<rparr>) tbl"

text \<open>\<^verbatim>\<open>list.index\<close>, with \<open>None\<close> for its ValueError.\<close>

fun index_of :: "int list \<Rightarrow> int \<Rightarrow> nat option" where
  "index_of [] x = None"
| "index_of (y # ys) x = (if y = x then Some 0 else map_option Suc (index_of ys x))"

subsection \<open>The module\<close>

definition validate_attribute_owns_values :: "store \<Rightarrow> attribute \<Rightarrow> int set \<Rightarrow> error + unit" where
  "validate_attribute_owns_values s attr value_ids =
     (let attribute_actual_value_ids =
            set (map value_pk
                  (filter (\<lambda>v. value_attribute_id v = attribute_pk attr) (attribute_values s)));
          found_associated_ids = attribute_actual_value_ids \<inter> value_ids
      in if found_associated_ids \<noteq> value_ids
         then Inl (AssertionError ''Some values are not from the provided attribute.'')
         else Inr ())"

definition instance_to_assignment_mapping :: "string \<Rightarrow> entity_kind option" where
  "instance_to_assignment_mapping =
     map_of [(''Category'', CategoryKind), (''Collection'', CollectionKind)]"

text \<open>\<^verbatim>\<open>_get_associate_category_or_collection_attribute\<close>\<close>

definition get_associate_category_or_collection_attribute ::
  "store \<Rightarrow> entity \<Rightarrow> int \<Rightarrow> int option \<Rightarrow> (error + assignment_obj) \<times> store" where
  "get_associate_category_or_collection_attribute s inst attr_pk site_settings =
     (case instance_to_assignment_mapping (class_name inst) of
        None \<Rightarrow> (Inl KeyError, s)
      | Some k \<Rightarrow>
          (case site_settings of
             None \<Rightarrow> (Inl AttributeError, s)
           | Some settings \<Rightarrow>
               (case queryset_get (filter (\<lambda>l. link_attribute_id l = attr_pk)
                                     (related_links s k settings)) of
                  Inl e \<Rightarrow> (Inl e, s)
                | Inr attribute_rel \<Rightarrow>
                    get_or_create s k (instance_pk inst) (link_pk attribute_rel))))"

text \<open>\<^verbatim>\<open>_associate_attribute_to_instance\<close>\<close>

fun associate_attribute_to_instance ::
  "store \<Rightarrow> entity \<Rightarrow> int \<Rightarrow> int option \<Rightarrow> (error + assignment_obj) \<times> store" where
  "associate_attribute_to_instance s (Product pk product_type) attr_pk site_settings =
     (case queryset_get (filter (\<lambda>l. link_attribute_id l = attr_pk)
                           (related_links s ProductKind product_type)) of
        Inl e \<Rightarrow> (Inl e, s)
      | Inr attribute_rel \<Rightarrow> get_or_create s ProductKind pk (link_pk attribute_rel))"
| "associate_attribute_to_instance s (ProductVariant pk product_type) attr_pk site_settings =
     (case queryset_get (filter (\<lambda>l. link_attribute_id l = attr_pk)
                           (related_links s ProductVariantKind product_type)) of
        Inl e \<Rightarrow> (Inl e, s)
      | Inr attribute_rel \<Rightarrow> get_or_create s ProductVariantKind pk (link_pk attribute_rel))"
| "associate_attribute_to_instance s (Page pk page_type) attr_pk site_settings =
     (case queryset_get (filter (\<lambda>l. link_attribute_id l = attr_pk)
                           (related_links s PageKind page_type)) of
        Inl e \<Rightarrow> (Inl e, s)
      | Inr attribute_rel \<Rightarrow> get_or_create s PageKind pk (link_pk attribute_rel))"
| "associate_attribute_to_instance s (Category pk) attr_pk site_settings =
     get_associate_category_or_collection_attribute s (Category pk) attr_pk site_settings"
| "associate_attribute_to_instance s (Collection pk) attr_pk site_settings =
     get_associate_category_or_collection_attribute s (Collection pk) attr_pk site_settings"
| "associate_attribute_to_instance s (Other name pk) attr_pk site_settings =
     (Inl (AssertionError (name @ '' is unsupported'')), s)"

definition instance_to_value_assignment_mapping :: "string \<Rightarrow> entity_kind option" where
  "instance_to_value_assignment_mapping =
     map_of [(''Product'', ProductKind),
             (''ProductVariant'', ProductVariantKind),
             (''Page'', PageKind),
             (''Category'', CategoryKind),
             (''Collection'', CollectionKind)]"

text \<open>The sort key \<^verbatim>\<open>values_pks.index(e.value.pk)\<close> of a row whose value is listed.\<close>

definition sort_index :: "int list \<Rightarrow> assigned_value \<Rightarrow> nat" where
  "sort_index values_pks e =
     (case index_of values_pks (av_value e) of None \<Rightarrow> 0 | Some i \<Rightarrow> i)"

text \<open>
  Lines 151 to 153: the rows sorted by that key (the sort is stable), each numbered with
  its position.
\<close>

definition sort_and_number :: "int list \<Rightarrow> assigned_value list \<Rightarrow> assigned_value list" where
  "sort_and_number values_pks values_assignment =
     map (\<lambda>(index, value_assignment). value_assignment\<lparr>sort_order := Some (int index)\<rparr>)
         (enumerate 0 (sort_key (sort_index values_pks) values_assignment))"

text \<open>
  The reverse relation is looked up on the assignment under the name chosen from the
  instance's class; an assignment of another model has no such attribute. The keys are
  all computed before the list is sorted, so a missing value raises before any write.
\<close>

definition sort_assigned_attribute_values ::
  "store \<Rightarrow> entity \<Rightarrow> assignment_obj \<Rightarrow> attribute_value list \<Rightarrow> (error + unit) \<times> store" where
  "sort_assigned_attribute_values s inst a vals =
     (case instance_to_value_assignment_mapping (class_name inst) of
        None \<Rightarrow> (Inl KeyError, s)
      | Some k \<Rightarrow>
          if fst a \<noteq> k then (Inl AttributeError, s)
          else
            (let values_pks = map value_pk vals;
                 values_assignment =
                   filter (\<lambda>r. av_assignment r = assignment_pk (snd a)) (assigned_values s k)
             in if list_ex (\<lambda>e. index_of values_pks (av_value e) = None) values_assignment
                then (Inl ValueError, s)
                else (Inr (),
                      s\<lparr>assigned_values :=
                          (assigned_values s)
                            (k := bulk_update (assigned_values s k)
                                    (sort_and_number values_pks values_assignment))\<rparr>)))"

definition associate_attribute_values_to_instance ::
  "store \<Rightarrow> entity \<Rightarrow> attribute \<Rightarrow> attribute_value list \<Rightarrow> int option
     \<Rightarrow> (error + assignment_obj) \<times> store" where
  "associate_attribute_values_to_instance s inst attr vals site_settings =
     (let values_ids = set (map value_pk vals)
      in case validate_attribute_owns_values s attr values_ids of
           Inl e \<Rightarrow> (Inl e, s)
         | Inr u \<Rightarrow>
             (case associate_attribute_to_instance s inst (attribute_pk attr) site_settings of
                (Inl e, s1) \<Rightarrow> (Inl e, s1)
              | (Inr assignment, s1) \<Rightarrow>
                  (let s2 = values_set s1 assignment vals
                   in case sort_assigned_attribute_values s2 inst assignment vals of
                        (Inl e, s3) \<Rightarrow> (Inl e, s3)
                      | (Inr u', s3) \<Rightarrow> (Inr assignment, s3))))"

subsection \<open>Reading the store\<close>

text \<open>The identifiers of the values an attribute owns.\<close>

definition owned_ids :: "store \<Rightarrow> attribute \<Rightarrow> int set" where
  "owned_ids s attr =
     set (map value_pk
           (filter (\<lambda>v. value_attribute_id v = attribute_pk attr) (attribute_values s)))"

text \<open>The assigned-value rows of an assignment, and the identifiers of their values.\<close>

definition rows_of :: "store \<Rightarrow> assignment_obj \<Rightarrow> assigned_value list" where
  "rows_of s a =
     filter (\<lambda>r. av_assignment r = assignment_pk (snd a)) (assigned_values s (fst a))"

definition value_ids_of :: "store \<Rightarrow> assignment_obj \<Rightarrow> int set" where
  "value_ids_of s a = set (map av_value (rows_of s a))"

text \<open>
  Where the link of an instance is looked up: the table and the owner of the link
  collection. A category or a collection has one only when the site settings are given;
  an instance of another class has none.
\<close>

fun link_source :: "entity \<Rightarrow> int option \<Rightarrow> (entity_kind \<times> int) option" where
  "link_source (Product pk product_type) site_settings = Some (ProductKind, product_type)"
| "link_source (ProductVariant pk product_type) site_settings =
     Some (ProductVariantKind, product_type)"
| "link_source (Page pk page_type) site_settings = Some (PageKind, page_type)"
| "link_source (Category pk) site_settings =
     map_option (\<lambda>settings. (CategoryKind, settings)) site_settings"
| "link_source (Collection pk) site_settings =
     map_option (\<lambda>settings. (CollectionKind, settings)) site_settings"
| "link_source (Other name pk) site_settings = None"

text \<open>The links for an attribute in the link collection of an instance.\<close>

definition links_for :: "store \<Rightarrow> entity \<Rightarrow> int option \<Rightarrow> int \<Rightarrow> link list" where
  "links_for s inst site_settings attr_pk =
     (case link_source inst site_settings of
        None \<Rightarrow> []
      | Some (k, owner) \<Rightarrow>
          filter (\<lambda>l. link_attribute_id l = attr_pk) (related_links s k owner))"

text \<open>
  The constraints of the schema, for every kind: one link per owner and attribute, keys
  of assignments and of assigned values unique in their tables, one assignment per
  instance and link, one assigned value per assignment and value.
\<close>

definition kinds :: "entity_kind list" where
  "kinds = [ProductKind, ProductVariantKind, PageKind, CategoryKind, CollectionKind]"

definition wf_kind :: "store \<Rightarrow> entity_kind \<Rightarrow> bool" where
  "wf_kind s k =
     (distinct (map (\<lambda>l. (link_owner l, link_attribute_id l)) (attribute_links s k))
      \<and> distinct (map assignment_pk (assignments s k))
      \<and> distinct (map (\<lambda>r. (assignment_instance r, assignment_link r)) (assignments s k))
      \<and> distinct (map av_pk (assigned_values s k))
      \<and> distinct (map (\<lambda>r. (av_assignment r, av_value r)) (assigned_values s k)))"

definition wf_store :: "store \<Rightarrow> bool" where
  "wf_store s = list_all (wf_kind s) kinds"

subsection \<open>A shop to run the module on\<close>

text \<open>
  The colour attribute (key 5) owns red, blue and green; the size attribute (key 6)
  owns large. Product type 10 has a link (key 7) for colour, and the site settings
  (key 1) have a category link (key 8) for colour.
\<close>

definition color :: attribute where
  "color = \<lparr>attribute_pk = 5\<rparr>"

definition red :: attribute_value where
  "red = \<lparr>value_pk = 1, value_attribute_id = 5\<rparr>"

definition blue :: attribute_value where
  "blue = \<lparr>value_pk = 2, value_attribute_id = 5\<rparr>"

definition green :: attribute_value where
  "green = \<lparr>value_pk = 3, value_attribute_id = 5\<rparr>"

definition large :: attribute_value where
  "large = \<lparr>value_pk = 4, value_attribute_id = 6\<rparr>"

definition shop :: store where
  "shop =
     \<lparr>attribute_values = [red, blue, green, large],
      attribute_links =
        (\<lambda>k. [])(ProductKind := [\<lparr>link_pk = 7, link_owner = 10, link_attribute_id = 5\<rparr>],
                  CategoryKind := [\<lparr>link_pk = 8, link_owner = 1, link_attribute_id = 5\<rparr>]),
      assignments = (\<lambda>k. []),
      assigned_values = (\<lambda>k. [])\<rparr>"

lemmas shop_defs = shop_def color_def red_def blue_def green_def large_def

section \<open>Properties\<close>

subsection \<open>The ownership check\<close>

lemma validate_eq_owned:
  "validate_attribute_owns_values s attr ids =
     (if ids \<subseteq> owned_ids s attr then Inr ()
      else Inl (AssertionError ''Some values are not from the provided attribute.''))"
  by (auto simp: validate_attribute_owns_values_def owned_ids_def Let_def)

text \<open>
  C3. When some value of the sequence has an identifier the attribute does not own, the
  call raises the ownership AssertionError and the store is the one it was given, so
  that any assignment and its values are as before. The check is exact: it passes just
  when the requested identifiers minus the owned ones are empty.
\<close>

theorem foreign_value_rejected_before_mutation:
  assumes "\<exists>v \<in> set vals. value_pk v \<notin> owned_ids s attr"
  shows "associate_attribute_values_to_instance s inst attr vals site_settings =
           (Inl (AssertionError ''Some values are not from the provided attribute.''), s)
         \<and> ((validate_attribute_owns_values s attr ids = Inr ()) = (ids - owned_ids s attr = {}))"
proof -
  from assms have "\<not> set (map value_pk vals) \<subseteq> owned_ids s attr"
    by auto
  then have "associate_attribute_values_to_instance s inst attr vals site_settings =
      (Inl (AssertionError ''Some values are not from the provided attribute.''), s)"
    by (simp add: associate_attribute_values_to_instance_def validate_eq_owned)
  moreover have "(validate_attribute_owns_values s attr ids = Inr ()) = (ids - owned_ids s attr = {})"
    by (simp add: validate_eq_owned)
  ultimately show ?thesis
    by simp
qed

theorem foreign_value_rejected_witness:
  "value_pk large \<notin> owned_ids shop color
   \<and> associate_attribute_values_to_instance shop (Product 1 10) color [green, large] None =
       (Inl (AssertionError ''Some values are not from the provided attribute.''), shop)
   \<and> ((validate_attribute_owns_values shop color {3, 4} = Inr ()) = ({3, 4} - owned_ids shop color = {}))"
proof -
  have h: "\<exists>v \<in> set [green, large]. value_pk v \<notin> owned_ids shop color"
    by (simp add: owned_ids_def shop_defs)
  have "value_pk large \<notin> owned_ids shop color"
    by (simp add: owned_ids_def shop_defs)
  with foreign_value_rejected_before_mutation [OF h, of "Product 1 10" None "{3, 4}"]
  show ?thesis
    by simp
qed

end
